theory Spec2Isabelle
  imports Complex_Main "HOL-Library.Word"
begin

section \<open>The camera view of MindCanvas\<close>

text \<open>
  The development embeds the React component \<open>CameraView\<close>: its state hooks and refs
  become one record, the browser objects it drives (media streams, the recorder, object
  URLs, the canvas) become an explicit world, and every call that leaves the component
  (a prop callback, \<open>console.error\<close>, \<open>alert\<close>, a browser API) is appended to a trace,
  so that order and multiplicity of effects can be stated.
\<close>

subsection \<open>Values\<close>

text \<open>\<open>'photo' | 'video'\<close> and \<open>'environment' | 'user'\<close>.\<close>

datatype capture_mode = Photo | Video

datatype facing_mode = Environment | User

type_synonym track = nat
type_synonym byte = "8 word"
type_synonym url = nat

text \<open>
  A \<open>MediaStream\<close>: its tracks, and the frame size the device negotiated (read by the
  video element as \<open>videoWidth\<close> and \<open>videoHeight\<close>).
\<close>

record MediaStream =
  getTracks :: "track list"
  frameWidth :: nat
  frameHeight :: nat

record Blob =
  blob_bytes :: "byte list"
  blob_type :: string

definition blob_size :: "Blob \<Rightarrow> nat" where
  "blob_size b = length (blob_bytes b)"

text \<open>\<open>new Blob(parts, { type })\<close>: the parts' bytes in order.\<close>

definition new_Blob :: "Blob list \<Rightarrow> string \<Rightarrow> Blob" where
  "new_Blob parts ty = \<lparr>blob_bytes = concat (map blob_bytes parts), blob_type = ty\<rparr>"

record MediaStreamConstraints =
  video_facingMode :: facing_mode
  video_width_ideal :: nat
  video_height_ideal :: nat
  audio :: bool

datatype recording_state = RecInactive | RecRecording

record MediaRecorder =
  rec_stream :: MediaStream
  rec_mimeType :: "string option"
  rec_state :: recording_state

record HTMLVideoElement =
  srcObject :: "MediaStream option"

definition videoWidth :: "HTMLVideoElement \<Rightarrow> nat" where
  "videoWidth v = (case srcObject v of None \<Rightarrow> 0 | Some m \<Rightarrow> frameWidth m)"

definition videoHeight :: "HTMLVideoElement \<Rightarrow> nat" where
  "videoHeight v = (case srcObject v of None \<Rightarrow> 0 | Some m \<Rightarrow> frameHeight m)"

record canvas =
  width :: nat
  height :: nat

text \<open>
  \<open>document.createElement('canvas')\<close> is 300 by 150. \<open>width\<close> and \<open>height\<close> reflect
  an unsigned long limited to non-negative numbers: assigning a value above 2147483647
  stores the default instead.
\<close>

definition createCanvas :: canvas where
  "createCanvas = \<lparr>width = 300, height = 150\<rparr>"

definition reflect_dimension :: "nat \<Rightarrow> nat \<Rightarrow> nat" where
  "reflect_dimension dflt n = (if n \<le> 2147483647 then n else dflt)"

subsection \<open>Effects, world and platform\<close>

datatype effect =
    TrackStop track
  | GetUserMedia MediaStreamConstraints
  | ConsoleError string
  | Alert string
  | OnClose
  | OnCapture Blob string
  | DrawImage nat nat nat nat
  | ToBlob string rat
  | CreateObjectURL url
  | RevokeObjectURL "url option"
  | RecorderStart "string option"
  | RecorderStop
  | Uncaught string

text \<open>
  The world outside the component: the streams the device has handed out, the tracks on
  which \<open>stop()\<close> has been called, the \<open>getUserMedia\<close> promises that have not settled
  yet (each with the constraints it was called with), the object URLs that are live, and
  the trace.
\<close>

record world =
  acquired :: "MediaStream list"
  ended :: "track set"
  pending :: "MediaStreamConstraints list"
  object_urls :: "url list"
  next_url :: url
  trace :: "effect list"

text \<open>
  What the browser answers while one event is handled: the outcome of \<open>getUserMedia\<close>
  (a rejection carries the error's name), the recorder types it supports, the exception
  that \<open>new MediaRecorder(stream)\<close> without options throws if the platform has no
  recorder to offer, whether the canvas hands out a 2d context, the encoder behind
  \<open>canvas.toBlob\<close> (\<open>None\<close> is the \<open>null\<close> blob), and the data of the
  \<open>dataavailable\<close> event a stopping recorder fires.
\<close>

record platform =
  getUserMedia :: "MediaStreamConstraints \<Rightarrow> string + MediaStream"
  isTypeSupported :: "string \<Rightarrow> bool"
  default_recorder_error :: "string option"
  getContext2d :: bool
  encode :: "canvas \<Rightarrow> string \<Rightarrow> rat \<Rightarrow> byte list option"
  final_data :: Blob

definition emit :: "effect \<Rightarrow> world \<Rightarrow> world" where
  "emit e w = w\<lparr>trace := trace w @ [e]\<rparr>"

definition track_stop :: "track \<Rightarrow> world \<Rightarrow> world" where
  "track_stop t w = emit (TrackStop t) (w\<lparr>ended := insert t (ended w)\<rparr>)"

text \<open>\<open>stream.getTracks().forEach(track => track.stop())\<close>\<close>

definition stop_all :: "MediaStream \<Rightarrow> world \<Rightarrow> world" where
  "stop_all m w = foldl (\<lambda>a t. track_stop t a) w (getTracks m)"

definition createObjectURL :: "Blob \<Rightarrow> world \<Rightarrow> url \<times> world" where
  "createObjectURL b w =
     (next_url w,
      emit (CreateObjectURL (next_url w))
        (w\<lparr>object_urls := object_urls w @ [next_url w], next_url := Suc (next_url w)\<rparr>))"

text \<open>Revoking \<open>null\<close> (or a URL that is not live) changes nothing.\<close>

definition revokeObjectURL :: "url option \<Rightarrow> world \<Rightarrow> world" where
  "revokeObjectURL u w =
     emit (RevokeObjectURL u)
       (case u of None \<Rightarrow> w | Some x \<Rightarrow> w\<lparr>object_urls := removeAll x (object_urls w)\<rparr>)"

text \<open>A stream is live (active) while one of its tracks has not been stopped.\<close>

definition live :: "world \<Rightarrow> MediaStream \<Rightarrow> bool" where
  "live w m = list_ex (\<lambda>t. t \<notin> ended w) (getTracks m)"

text \<open>
  \<open>new MediaRecorder(stream, options)\<close> throws \<open>NotSupportedError\<close> for a type the
  platform cannot record; without options the platform picks its default type, and
  throws when it has none.
\<close>

definition new_MediaRecorder ::
  "platform \<Rightarrow> MediaStream \<Rightarrow> string option \<Rightarrow> string + MediaRecorder" where
  "new_MediaRecorder p m opt =
     (case opt of
        None \<Rightarrow>
          (case default_recorder_error p of
             None \<Rightarrow> Inr \<lparr>rec_stream = m, rec_mimeType = None, rec_state = RecInactive\<rparr>
           | Some e \<Rightarrow> Inl e)
      | Some ty \<Rightarrow>
          if isTypeSupported p ty
          then Inr \<lparr>rec_stream = m, rec_mimeType = Some ty, rec_state = RecInactive\<rparr>
          else Inl ''NotSupportedError'')"

text \<open>
  \<open>canvas.toBlob(callback, type, quality)\<close>: a canvas without pixels (a dimension is
  zero) gives \<open>null\<close>, and so does one that cannot be encoded; otherwise the blob handed
  to the callback has the requested type.
\<close>

definition toBlob :: "platform \<Rightarrow> canvas \<Rightarrow> string \<Rightarrow> rat \<Rightarrow> Blob option" where
  "toBlob p c ty q =
     (if width c = 0 \<or> height c = 0 then None
      else map_option (\<lambda>d. \<lparr>blob_bytes = d, blob_type = ty\<rparr>) (encode p c ty q))"

subsection \<open>Component state\<close>

text \<open>
  The six \<open>useState\<close> cells and the three refs. \<open>cleanup_stream\<close> is the value of
  \<open>stream\<close> that the cleanup function of the current effect closed over: the render in
  which the effect last ran.
\<close>

record camera_view =
  mode :: capture_mode
  facingMode :: facing_mode
  stream :: "MediaStream option"
  isRecording :: bool
  preview :: "url option"
  previewBlob :: "Blob option"
  videoRef :: "HTMLVideoElement option"
  mediaRecorderRef :: "MediaRecorder option"
  recordedChunksRef :: "Blob list"
  cleanup_stream :: "MediaStream option"

type_synonym session = "camera_view \<times> world"

definition initial_view :: camera_view where
  "initial_view =
     \<lparr>mode = Photo, facingMode = Environment, stream = None, isRecording = False,
      preview = None, previewBlob = None, videoRef = Some \<lparr>srcObject = None\<rparr>,
      mediaRecorderRef = None, recordedChunksRef = [], cleanup_stream = None\<rparr>"

definition initial_world :: world where
  "initial_world =
     \<lparr>acquired = [], ended = {}, pending = [], object_urls = [], next_url = 0, trace = []\<rparr>"

subsection \<open>Handlers\<close>

definition constraints :: "facing_mode \<Rightarrow> capture_mode \<Rightarrow> MediaStreamConstraints" where
  "constraints currentFacingMode currentMode =
     \<lparr>video_facingMode = currentFacingMode, video_width_ideal = 1920,
      video_height_ideal = 1080, audio = (currentMode = Video)\<rparr>"

text \<open>
  \<open>setupCamera\<close> is an async function. The call runs up to the \<open>await\<close>: it stops the
  tracks of the \<open>stream\<close> of the render it was created in, asks for the new stream and
  returns with the promise pending. Other events are handled while it is pending.
\<close>

definition setupCamera :: "facing_mode \<Rightarrow> capture_mode \<Rightarrow> session \<Rightarrow> session" where
  "setupCamera currentFacingMode currentMode sw =
     (let w1 = (case stream (fst sw) of None \<Rightarrow> snd sw | Some m \<Rightarrow> stop_all m (snd sw));
          c = constraints currentFacingMode currentMode;
          w2 = emit (GetUserMedia c) w1
      in (fst sw, w2\<lparr>pending := pending w2 @ [c]\<rparr>))"

text \<open>
  The rest of \<open>setupCamera\<close> runs when the promise settles: with the stream, or in the
  \<open>catch\<close> block. It reads no state of the render that made the call; \<open>videoRef.current\<close>
  is the element at the time of settling.
\<close>

definition setupCamera_resume ::
  "platform \<Rightarrow> MediaStreamConstraints \<Rightarrow> session \<Rightarrow> session" where
  "setupCamera_resume p c sw =
     (case getUserMedia p c of
        Inr mediaStream \<Rightarrow>
          ((fst sw)\<lparr>stream := Some mediaStream,
             videoRef := map_option (\<lambda>v. v\<lparr>srcObject := Some mediaStream\<rparr>) (videoRef (fst sw))\<rparr>,
           (snd sw)\<lparr>acquired := acquired (snd sw) @ [mediaStream]\<rparr>)
      | Inl error \<Rightarrow>
          (fst sw,
           emit OnClose
             (emit (Alert ''Could not access camera. Please check permissions.'')
                (emit (ConsoleError ''Error accessing camera:'') (snd sw)))))"

text \<open>
  The effect on \<open>[facingMode, mode]\<close>: when a dependency has changed, the cleanup of the
  previous run is called (with the stream it closed over), then the effect runs in the
  new render and registers a cleanup that closes over that render's \<open>stream\<close>.
\<close>

definition run_cleanup :: "session \<Rightarrow> session" where
  "run_cleanup sw =
     (fst sw, case cleanup_stream (fst sw) of None \<Rightarrow> snd sw | Some m \<Rightarrow> stop_all m (snd sw))"

definition run_effect :: "session \<Rightarrow> session" where
  "run_effect sw =
     (let s = (fst sw)\<lparr>cleanup_stream := stream (fst sw)\<rparr>
      in setupCamera (facingMode s) (mode s) (s, snd sw))"

text \<open>The first render and its effect: the first request is pending.\<close>

definition mount :: session where
  "mount = run_effect (initial_view, initial_world)"

definition unmount :: "session \<Rightarrow> session" where
  "unmount sw = run_cleanup sw"

text \<open>\<open>setMode(m)\<close>: a state cell set to the value it holds causes no render.\<close>

definition setMode :: "capture_mode \<Rightarrow> session \<Rightarrow> session" where
  "setMode m sw =
     (if mode (fst sw) = m then sw
      else run_effect (run_cleanup ((fst sw)\<lparr>mode := m\<rparr>, snd sw)))"

definition handleFlipCamera :: "session \<Rightarrow> session" where
  "handleFlipCamera sw =
     run_effect
       (run_cleanup
          ((fst sw)\<lparr>facingMode := (if facingMode (fst sw) = User then Environment else User)\<rparr>,
           snd sw))"

definition handleTakePicture :: "platform \<Rightarrow> session \<Rightarrow> session" where
  "handleTakePicture p sw =
     (case videoRef (fst sw) of
        None \<Rightarrow> sw
      | Some v \<Rightarrow>
          let cv = createCanvas
                     \<lparr>width := reflect_dimension 300 (videoWidth v),
                      height := reflect_dimension 150 (videoHeight v)\<rparr> in
          if \<not> getContext2d p then sw
          else
            let w1 = emit (DrawImage 0 0 (width cv) (height cv)) (snd sw);
                w2 = emit (ToBlob ''image/jpeg'' (95 / 100)) w1
            in (case toBlob p cv ''image/jpeg'' (95 / 100) of
                  None \<Rightarrow> (fst sw, w2)
                | Some blob \<Rightarrow>
                    let uw = createObjectURL blob w2
                    in ((fst sw)\<lparr>preview := Some (fst uw), previewBlob := Some blob\<rparr>,
                        snd uw)))"

text \<open>The recorder's two handlers, installed by \<open>handleStartRecording\<close>.\<close>

definition ondataavailable :: "Blob \<Rightarrow> camera_view \<Rightarrow> camera_view" where
  "ondataavailable event_data s =
     (if blob_size event_data > 0
      then s\<lparr>recordedChunksRef := recordedChunksRef s @ [event_data]\<rparr>
      else s)"

definition onstop :: "session \<Rightarrow> session" where
  "onstop sw =
     (let blob = new_Blob (recordedChunksRef (fst sw)) ''video/webm'';
          uw = createObjectURL blob (snd sw)
      in ((fst sw)\<lparr>preview := Some (fst uw), previewBlob := Some blob\<rparr>, snd uw))"

text \<open>
  What follows the construction: the recorder is stored in the ref, the two handlers are
  installed, \<open>start()\<close> is called and the flag is set. \<open>start()\<close> throws
  \<open>NotSupportedError\<close> when the recorder's stream is inactive; nothing catches it.
\<close>

definition start_recorder :: "MediaRecorder \<Rightarrow> session \<Rightarrow> session" where
  "start_recorder r sw =
     (let s1 = (fst sw)\<lparr>mediaRecorderRef := Some r\<rparr>
      in if live (snd sw) (rec_stream r)
         then (s1\<lparr>mediaRecorderRef := Some (r\<lparr>rec_state := RecRecording\<rparr>), isRecording := True\<rparr>,
               emit (RecorderStart (rec_mimeType r)) (snd sw))
         else (s1, emit (Uncaught ''NotSupportedError'') (snd sw)))"

definition handleStartRecording :: "platform \<Rightarrow> session \<Rightarrow> session" where
  "handleStartRecording p sw =
     (case stream (fst sw) of
        None \<Rightarrow> sw
      | Some m \<Rightarrow>
          let s1 = (fst sw)\<lparr>recordedChunksRef := []\<rparr> in
          (case new_MediaRecorder p m (Some ''video/webm; codecs=vp9'') of
             Inr r \<Rightarrow> start_recorder r (s1, snd sw)
           | Inl e \<Rightarrow>
               let w1 = emit (ConsoleError ''Error creating MediaRecorder with vp9, falling back:'')
                          (snd sw)
               in (case new_MediaRecorder p m None of
                     Inr r \<Rightarrow> start_recorder r (s1, w1)
                   | Inl e2 \<Rightarrow> (s1, emit (Uncaught e2) w1))))"

text \<open>
  \<open>recorder.stop()\<close> on a recording recorder makes it inactive and fires
  \<open>dataavailable\<close> with what is still buffered, then \<open>stop\<close>; on an inactive recorder it
  does nothing. The two events are handled after the caller has returned.
\<close>

definition handleStopRecording :: "platform \<Rightarrow> session \<Rightarrow> session" where
  "handleStopRecording p sw =
     (case mediaRecorderRef (fst sw) of
        None \<Rightarrow> sw
      | Some r \<Rightarrow>
          let w1 = emit RecorderStop (snd sw);
              s1 = (fst sw)\<lparr>isRecording := False\<rparr>
          in if rec_state r = RecRecording
             then onstop
                    (ondataavailable (final_data p)
                       (s1\<lparr>mediaRecorderRef := Some (r\<lparr>rec_state := RecInactive\<rparr>)\<rparr>),
                     w1)
             else (s1, w1))"

definition handleShutterClick :: "platform \<Rightarrow> session \<Rightarrow> session" where
  "handleShutterClick p sw =
     (if mode (fst sw) = Photo then handleTakePicture p sw
      else if isRecording (fst sw) then handleStopRecording p sw
      else handleStartRecording p sw)"

definition handleRetake :: "session \<Rightarrow> session" where
  "handleRetake sw =
     ((fst sw)\<lparr>preview := None, previewBlob := None\<rparr>,
      revokeObjectURL (preview (fst sw)) (snd sw))"

definition handleConfirm :: "session \<Rightarrow> session" where
  "handleConfirm sw =
     (case previewBlob (fst sw) of
        None \<Rightarrow> sw
      | Some b \<Rightarrow> (fst sw, emit (OnCapture b (blob_type b)) (snd sw)))"

subsection \<open>Rendering and events\<close>

datatype control =
  CloseButton | RetakeButton | ConfirmButton | ShutterButton | PhotoButton | VideoButton
  | FlipButton

text \<open>Which buttons the returned tree contains.\<close>

fun rendered :: "camera_view \<Rightarrow> control \<Rightarrow> bool" where
  "rendered s CloseButton = True"
| "rendered s RetakeButton = (preview s \<noteq> None)"
| "rendered s ConfirmButton = (preview s \<noteq> None)"
| "rendered s ShutterButton = (preview s = None)"
| "rendered s PhotoButton = (preview s = None)"
| "rendered s VideoButton = (preview s = None)"
| "rendered s FlipButton = (preview s = None)"

fun onClick :: "platform \<Rightarrow> control \<Rightarrow> session \<Rightarrow> session" where
  "onClick p CloseButton sw = (fst sw, emit OnClose (snd sw))"
| "onClick p RetakeButton sw = handleRetake sw"
| "onClick p ConfirmButton sw = handleConfirm sw"
| "onClick p ShutterButton sw = handleShutterClick p sw"
| "onClick p PhotoButton sw = setMode Photo sw"
| "onClick p VideoButton sw = setMode Video sw"
| "onClick p FlipButton sw = handleFlipCamera sw"

text \<open>
  After a handler the tree is rendered again: the live \<open><video ref={videoRef}>\<close> exists
  only while there is no preview, and a newly created one has no \<open>srcObject\<close>.
\<close>

definition commit :: "session \<Rightarrow> session" where
  "commit sw =
     (if preview (fst sw) \<noteq> None then ((fst sw)\<lparr>videoRef := None\<rparr>, snd sw)
      else (case videoRef (fst sw) of
              None \<Rightarrow> ((fst sw)\<lparr>videoRef := Some \<lparr>srcObject = None\<rparr>\<rparr>, snd sw)
            | Some v \<Rightarrow> sw))"

text \<open>
  What the component reacts to: a click, a chunk from the recorder, and the settling of
  one of the pending \<open>getUserMedia\<close> promises (by its position among them).
\<close>

datatype event = Click control | DataAvailable Blob | Settle nat

text \<open>A click reaches a handler only if its button is on screen.\<close>

fun step :: "platform \<Rightarrow> event \<Rightarrow> session \<Rightarrow> session" where
  "step p (Click c) sw = (if rendered (fst sw) c then commit (onClick p c sw) else sw)"
| "step p (DataAvailable d) sw =
     (case mediaRecorderRef (fst sw) of
        None \<Rightarrow> sw
      | Some r \<Rightarrow>
          if rec_state r = RecRecording then (ondataavailable d (fst sw), snd sw) else sw)"
| "step p (Settle i) sw =
     (if i < length (pending (snd sw))
      then setupCamera_resume p (pending (snd sw) ! i)
             (fst sw,
              (snd sw)\<lparr>pending := take i (pending (snd sw)) @ drop (Suc i) (pending (snd sw))\<rparr>)
      else sw)"

fun run :: "(platform \<times> event) list \<Rightarrow> session \<Rightarrow> session" where
  "run [] sw = sw"
| "run (pe # pes) sw = run pes (step (fst pe) (snd pe) sw)"

subsection \<open>Observations\<close>

text \<open>
  The session state the component presents. It keeps no such field: a preview replaces
  the live view, the recording flag changes the shutter, and the session is over for the
  component once it has called one of its two props.
\<close>

datatype session_state = Initializing | Streaming | Recording | Previewing | Closed

definition terminal :: "effect \<Rightarrow> bool" where
  "terminal e = (case e of OnClose \<Rightarrow> True | OnCapture b t \<Rightarrow> True | _ \<Rightarrow> False)"

definition session_state :: "session \<Rightarrow> session_state" where
  "session_state sw =
     (if list_ex terminal (trace (snd sw)) then Closed
      else if preview (fst sw) \<noteq> None then Previewing
      else if isRecording (fst sw) then Recording
      else if stream (fst sw) \<noteq> None then Streaming
      else Initializing)"

definition live_streams :: "world \<Rightarrow> MediaStream list" where
  "live_streams w = filter (live w) (remdups (acquired w))"

definition count_effect :: "effect \<Rightarrow> world \<Rightarrow> nat" where
  "count_effect e w = count_list (trace w) e"

subsection \<open>Sample platforms\<close>

text \<open>
  A device with a back and a front camera and a microphone, whose recorder does not know
  vp9; one on which the user denies the permission; and one that has no recorder at all.
\<close>

definition sample_stream :: "MediaStreamConstraints \<Rightarrow> MediaStream" where
  "sample_stream c =
     \<lparr>getTracks =
        (if video_facingMode c = User then (if audio c then [5, 6] else [4])
         else (if audio c then [2, 3] else [1])),
      frameWidth = 1280, frameHeight = 720\<rparr>"

definition sample_platform :: platform where
  "sample_platform =
     \<lparr>getUserMedia = (\<lambda>c. Inr (sample_stream c)),
      isTypeSupported = (\<lambda>ty. False),
      default_recorder_error = None,
      getContext2d = True,
      encode = (\<lambda>c ty q. Some [255, 216, 255]),
      final_data = \<lparr>blob_bytes = [], blob_type = ''video/webm''\<rparr>\<rparr>"

definition denying_platform :: platform where
  "denying_platform = sample_platform\<lparr>getUserMedia := (\<lambda>c. Inl ''NotAllowedError'')\<rparr>"

definition no_recorder_platform :: platform where
  "no_recorder_platform = sample_platform\<lparr>default_recorder_error := Some ''NotSupportedError''\<rparr>"

text \<open>The view once its first request has settled.\<close>

definition started :: "platform \<Rightarrow> session" where
  "started p = step p (Settle 0) mount"

definition chunk :: "byte list \<Rightarrow> Blob" where
  "chunk bs = \<lparr>blob_bytes = bs, blob_type = ''video/webm''\<rparr>"

text \<open>
  A recording in progress: video mode is chosen, its stream arrives, the shutter is
  pressed, and the recorder has delivered four chunks, the second of them empty.
\<close>

definition sample_recording :: session where
  "sample_recording =
     run [(sample_platform, Click VideoButton), (sample_platform, Settle 0),
          (sample_platform, Click ShutterButton),
          (sample_platform, DataAvailable (chunk [1, 2])),
          (sample_platform, DataAvailable (chunk [])),
          (sample_platform, DataAvailable (chunk [3])),
          (sample_platform, DataAvailable (chunk [4, 5, 6]))]
       (started sample_platform)"

text \<open>
  The view after a switch to video whose request was denied: the stream of the first
  request is still held, with its tracks stopped by the switch.
\<close>

definition after_denied_switch :: session where
  "after_denied_switch =
     run [(sample_platform, Click VideoButton), (denying_platform, Settle 0)]
       (started sample_platform)"

section \<open>Basic facts\<close>

lemma emit_fields [simp]:
  "acquired (emit e w) = acquired w"
  "ended (emit e w) = ended w"
  "pending (emit e w) = pending w"
  "object_urls (emit e w) = object_urls w"
  "next_url (emit e w) = next_url w"
  "trace (emit e w) = trace w @ [e]"
  by (simp_all add: emit_def)

lemma stop_tracks_fields:
  "acquired (foldl (\<lambda>a t. track_stop t a) w ts) = acquired w"
  "ended (foldl (\<lambda>a t. track_stop t a) w ts) = ended w \<union> set ts"
  "pending (foldl (\<lambda>a t. track_stop t a) w ts) = pending w"
  "object_urls (foldl (\<lambda>a t. track_stop t a) w ts) = object_urls w"
  "next_url (foldl (\<lambda>a t. track_stop t a) w ts) = next_url w"
  "trace (foldl (\<lambda>a t. track_stop t a) w ts) = trace w @ map TrackStop ts"
  by (induction ts arbitrary: w; simp add: track_stop_def)+

lemma stop_all_fields [simp]:
  "acquired (stop_all m w) = acquired w"
  "ended (stop_all m w) = ended w \<union> set (getTracks m)"
  "pending (stop_all m w) = pending w"
  "object_urls (stop_all m w) = object_urls w"
  "next_url (stop_all m w) = next_url w"
  "trace (stop_all m w) = trace w @ map TrackStop (getTracks m)"
  by (simp_all add: stop_all_def stop_tracks_fields)

lemma createObjectURL_fields [simp]:
  "fst (createObjectURL b w) = next_url w"
  "acquired (snd (createObjectURL b w)) = acquired w"
  "ended (snd (createObjectURL b w)) = ended w"
  "pending (snd (createObjectURL b w)) = pending w"
  "object_urls (snd (createObjectURL b w)) = object_urls w @ [next_url w]"
  "next_url (snd (createObjectURL b w)) = Suc (next_url w)"
  "trace (snd (createObjectURL b w)) = trace w @ [CreateObjectURL (next_url w)]"
  by (simp_all add: createObjectURL_def)

lemma revokeObjectURL_fields [simp]:
  "acquired (revokeObjectURL u w) = acquired w"
  "ended (revokeObjectURL u w) = ended w"
  "pending (revokeObjectURL u w) = pending w"
  "object_urls (revokeObjectURL u w) =
     (case u of None \<Rightarrow> object_urls w | Some x \<Rightarrow> removeAll x (object_urls w))"
  "next_url (revokeObjectURL u w) = next_url w"
  "trace (revokeObjectURL u w) = trace w @ [RevokeObjectURL u]"
  by (simp_all add: revokeObjectURL_def split: option.splits)

lemmas handler_defs =
  mount_def unmount_def started_def run_effect_def run_cleanup_def setupCamera_def
  setupCamera_resume_def setMode_def handleFlipCamera_def handleTakePicture_def
  handleStartRecording_def start_recorder_def handleStopRecording_def handleShutterClick_def
  handleRetake_def handleConfirm_def ondataavailable_def onstop_def commit_def constraints_def
  new_MediaRecorder_def toBlob_def new_Blob_def blob_size_def videoWidth_def videoHeight_def
  createCanvas_def reflect_dimension_def initial_view_def initial_world_def
  sample_platform_def sample_stream_def denying_platform_def no_recorder_platform_def Let_def

lemmas observation_defs =
  session_state_def terminal_def live_def live_streams_def count_effect_def

lemma setupCamera_stops_held_stream:
  assumes "stream (fst sw) = Some h"
  shows "trace (snd (setupCamera f m sw)) =
           trace (snd sw) @ map TrackStop (getTracks h) @ [GetUserMedia (constraints f m)]"
    and "\<not> live (snd (setupCamera f m sw)) h"
    and "pending (snd (setupCamera f m sw)) = pending (snd sw) @ [constraints f m]"
  using assms by (simp_all add: setupCamera_def Let_def live_def list_ex_iff)

lemma setupCamera_without_stream:
  assumes "stream (fst sw) = None"
  shows "trace (snd (setupCamera f m sw)) = trace (snd sw) @ [GetUserMedia (constraints f m)]"
    and "ended (snd (setupCamera f m sw)) = ended (snd sw)"
  using assms by (simp_all add: setupCamera_def Let_def)

lemma setupCamera_resume_rejected:
  assumes "getUserMedia p c = Inl err"
  shows "fst (setupCamera_resume p c sw) = fst sw"
    and "trace (snd (setupCamera_resume p c sw)) =
           trace (snd sw) @
           [ConsoleError ''Error accessing camera:'',
            Alert ''Could not access camera. Please check permissions.'', OnClose]"
    and "ended (snd (setupCamera_resume p c sw)) = ended (snd sw)"
    and "acquired (snd (setupCamera_resume p c sw)) = acquired (snd sw)"
  using assms by (simp_all add: setupCamera_resume_def)

lemma handleStartRecording_resets_chunks:
  assumes "stream (fst sw) = Some m"
  shows "recordedChunksRef (fst (handleStartRecording p sw)) = []"
  using assms
  by (simp add: handleStartRecording_def start_recorder_def Let_def split: sum.splits)

lemma deliver_chunks:
  assumes "mediaRecorderRef (fst sw) = Some r" "rec_state r = RecRecording"
  shows "mediaRecorderRef (fst (run (map (\<lambda>d. (p, DataAvailable d)) ds) sw)) = Some r \<and>
         recordedChunksRef (fst (run (map (\<lambda>d. (p, DataAvailable d)) ds) sw)) =
           recordedChunksRef (fst sw) @ filter (\<lambda>d. 0 < blob_size d) ds"
  using assms
  by (induction ds arbitrary: sw) (simp_all add: ondataavailable_def)

lemma sample_recording_state:
  "mediaRecorderRef (fst sample_recording) =
     Some \<lparr>rec_stream = sample_stream (constraints Environment Video), rec_mimeType = None,
           rec_state = RecRecording\<rparr>"
  "recordedChunksRef (fst sample_recording) = [chunk [1, 2], chunk [3], chunk [4, 5, 6]]"
  by (simp_all add: sample_recording_def chunk_def handler_defs observation_defs)

section \<open>Confirm\<close>

lemma handleConfirm_effects:
  "previewBlob (fst sw) = Some b \<Longrightarrow>
     handleConfirm sw = (fst sw, emit (OnCapture b (blob_type b)) (snd sw))"
  by (simp add: handleConfirm_def)

lemma handleConfirm_object_urls:
  "object_urls (snd (handleConfirm sw)) = object_urls (snd sw)"
  by (simp add: handleConfirm_def split: option.splits)

text \<open>
  C1. After confirm from the preview, \<open>onCapture\<close> has been called once with the blob
  and its type and the session is over, but the preview's object URL is still live: a
  photo is taken on the sample platform and confirmed, and URL \<open>0\<close> is revoked neither
  by \<open>handleConfirm\<close> nor by the cleanup that runs when the view is unmounted.
  \<open>handleRetake\<close> is the only place that revokes.
\<close>

theorem confirm_keeps_preview_url:
  "let sw = run [(sample_platform, Click ShutterButton), (sample_platform, Click ConfirmButton)]
              (started sample_platform)
   in session_state sw = Closed \<and>
      filter terminal (trace (snd sw)) =
        [OnCapture \<lparr>blob_bytes = [255, 216, 255], blob_type = ''image/jpeg''\<rparr> ''image/jpeg''] \<and>
      preview (fst sw) = Some 0 \<and>
      object_urls (snd sw) = [0] \<and>
      object_urls (snd (unmount sw)) = [0]"
  by (simp add: handler_defs observation_defs)

text \<open>
  C10. Confirm with no stored preview blob does nothing at all: the state, the world and
  the trace (so also the calls of \<open>onCapture\<close>) are the ones before.
\<close>

theorem confirm_without_artifact_is_noop:
  "previewBlob (fst sw) = None \<Longrightarrow> handleConfirm sw = sw"
  by (simp add: handleConfirm_def)

theorem confirm_without_artifact_is_noop_witness:
  "previewBlob (fst (started sample_platform)) = None \<and>
   handleConfirm (started sample_platform) = started sample_platform"
proof -
  have h: "previewBlob (fst (started sample_platform)) = None"
    by (simp add: handler_defs)
  show ?thesis using h confirm_without_artifact_is_noop [OF h] by simp
qed

section \<open>Mode and facing\<close>

text \<open>
  While a preview is shown the three buttons are not in the tree, so a click on them
  reaches no handler.
\<close>

lemma mode_and_facing_fixed_while_previewing:
  assumes "preview (fst sw) \<noteq> None" and "c \<in> {PhotoButton, VideoButton, FlipButton}"
  shows "step p (Click c) sw = sw"
  using assms by auto

text \<open>
  C2. While recording the buttons are in the tree and their handlers run: from a
  recording started on the sample platform, PHOTO sets the mode to photo and the flip button
  sets the facing to user, and either one stops the tracks of the stream being recorded and
  requests a new stream, with the recording flag still set.
\<close>

theorem mode_and_facing_change_while_recording:
  "let sw = run [(sample_platform, Click VideoButton), (sample_platform, Settle 0),
                 (sample_platform, Click ShutterButton)]
              (started sample_platform);
       sw1 = step sample_platform (Click PhotoButton) sw;
       sw2 = step sample_platform (Click FlipButton) sw
   in session_state sw = Recording \<and> mode (fst sw) = Video \<and> facingMode (fst sw) = Environment \<and>
      session_state sw1 = Recording \<and> mode (fst sw1) = Photo \<and>
      drop (length (trace (snd sw))) (trace (snd sw1)) =
        [TrackStop 1, TrackStop 2, TrackStop 3, GetUserMedia (constraints Environment Photo)] \<and>
      session_state sw2 = Recording \<and> facingMode (fst sw2) = User \<and>
      drop (length (trace (snd sw))) (trace (snd sw2)) =
        [TrackStop 1, TrackStop 2, TrackStop 3, GetUserMedia (constraints User Video)]"
  by (simp add: handler_defs observation_defs)

section \<open>Close\<close>

text \<open>
  C3. The close button is wired to \<open>onClose\<close> alone. Closed while recording on the
  sample platform, the session is over with the recorder still recording: \<open>stop()\<close> was
  never called and no artifact was built. Unmounting does not change that; its cleanup
  stops the tracks of the stream the effect closed over, which is the one before the
  current one, so the recorded stream stays live as well.
\<close>

theorem close_while_recording_leaves_recorder_running:
  "let sw = run [(sample_platform, Click VideoButton), (sample_platform, Settle 0),
                 (sample_platform, Click ShutterButton), (sample_platform, Click CloseButton)]
              (started sample_platform)
   in session_state sw = Closed \<and>
      map_option rec_state (mediaRecorderRef (fst sw)) = Some RecRecording \<and>
      RecorderStop \<notin> set (trace (snd sw)) \<and>
      previewBlob (fst sw) = None \<and>
      map_option rec_state (mediaRecorderRef (fst (unmount sw))) = Some RecRecording \<and>
      RecorderStop \<notin> set (trace (snd (unmount sw))) \<and>
      live_streams (snd (unmount sw)) = [sample_stream (constraints Environment Video)]"
  by (simp add: handler_defs observation_defs)

section \<open>Acquisition\<close>

text \<open>
  C4. A call of \<open>setupCamera\<close> stops the stream its render holds before it asks for
  the next one (\<open>setupCamera_stops_held_stream\<close>), but a stream that is still on its way
  is held by no render. Flip is clicked while the first request is pending: nothing is
  stopped, both promises settle, and two streams are live, one of them held by nobody.
  The same happens after a first stream has arrived: flip, then VIDEO before the flip's
  request settles, stop the first stream three times and leave the two that follow live.
\<close>

theorem overlapping_requests_leave_two_streams:
  "let sw = run [(sample_platform, Click FlipButton), (sample_platform, Settle 0),
                 (sample_platform, Settle 0)] mount;
       sw' = run [(sample_platform, Click FlipButton), (sample_platform, Click VideoButton),
                  (sample_platform, Settle 0), (sample_platform, Settle 0)]
               (started sample_platform)
   in trace (snd sw) =
        [GetUserMedia (constraints Environment Photo), GetUserMedia (constraints User Photo)] \<and>
      live_streams (snd sw) =
        [sample_stream (constraints Environment Photo), sample_stream (constraints User Photo)] \<and>
      stream (fst sw) = Some (sample_stream (constraints User Photo)) \<and>
      trace (snd sw') =
        [GetUserMedia (constraints Environment Photo),
         TrackStop 1, GetUserMedia (constraints User Photo),
         TrackStop 1, TrackStop 1, GetUserMedia (constraints User Video)] \<and>
      live_streams (snd sw') =
        [sample_stream (constraints User Photo), sample_stream (constraints User Video)] \<and>
      stream (fst sw') = Some (sample_stream (constraints User Video))"
  by (simp add: handler_defs observation_defs)

text \<open>
  C7. VIDEO is clicked while the first request is pending; the first request is granted
  and the second is denied. The \<open>catch\<close> block calls \<open>onClose\<close> once and the session is
  over, with the granted stream held and live. When both requests are denied, \<open>onClose\<close>
  is called twice.
\<close>

theorem rejected_request_leaves_stream_live:
  "let sw = run [(sample_platform, Click VideoButton), (sample_platform, Settle 0),
                 (denying_platform, Settle 0)] mount;
       sw' = run [(sample_platform, Click VideoButton), (denying_platform, Settle 0),
                  (denying_platform, Settle 0)] mount
   in session_state sw = Closed \<and>
      count_effect OnClose (snd sw) = 1 \<and>
      stream (fst sw) = Some (sample_stream (constraints Environment Photo)) \<and>
      live_streams (snd sw) = [sample_stream (constraints Environment Photo)] \<and>
      session_state sw' = Closed \<and>
      count_effect OnClose (snd sw') = 2"
  by (simp add: handler_defs observation_defs)

section \<open>Recording\<close>

text \<open>
  C5. Stopping a recording recorder builds the artifact from the retained chunks (those
  held before, and the last delivery if it is not empty): its bytes are their bytes in
  order, its type is \<open>video/webm\<close>, and with nothing retained it is an empty blob.
\<close>

theorem stop_recording_concatenates_chunks:
  assumes "mediaRecorderRef (fst sw) = Some r" and "rec_state r = RecRecording"
  shows "let sw' = handleStopRecording p sw; retained = recordedChunksRef (fst sw')
         in retained = recordedChunksRef (fst sw) @ filter (\<lambda>d. 0 < blob_size d) [final_data p] \<and>
            previewBlob (fst sw') =
              Some \<lparr>blob_bytes = concat (map blob_bytes retained), blob_type = ''video/webm''\<rparr> \<and>
            (retained = [] \<longrightarrow> map_option blob_size (previewBlob (fst sw')) = Some 0)"
  using assms
  by (simp add: handleStopRecording_def onstop_def ondataavailable_def new_Blob_def blob_size_def Let_def)

theorem stop_recording_concatenates_chunks_witness:
  "mediaRecorderRef (fst sample_recording) =
     Some \<lparr>rec_stream = sample_stream (constraints Environment Video), rec_mimeType = None,
           rec_state = RecRecording\<rparr> \<and>
   recordedChunksRef (fst sample_recording) = [chunk [1, 2], chunk [3], chunk [4, 5, 6]] \<and>
   previewBlob (fst (handleStopRecording sample_platform sample_recording)) =
     Some \<lparr>blob_bytes = [1, 2, 3, 4, 5, 6], blob_type = ''video/webm''\<rparr>"
proof -
  let ?r = "\<lparr>rec_stream = sample_stream (constraints Environment Video), rec_mimeType = None,
           rec_state = RecRecording\<rparr>"
  have h1: "mediaRecorderRef (fst sample_recording) = Some ?r"
    by (rule sample_recording_state)
  have h2: "rec_state ?r = RecRecording" by simp
  have fin: "final_data sample_platform = chunk []"
    by (simp add: sample_platform_def chunk_def)
  show ?thesis
    using stop_recording_concatenates_chunks [OF h1 h2, of sample_platform] h1
    by (simp add: Let_def sample_recording_state(2) fin chunk_def blob_size_def)
qed

text \<open>
  C6. A delivered chunk is appended exactly when its size is positive. When a recording
  has started, then through any deliveries up to the stop the retained chunks are the
  non-empty deliveries in order, and the artifact is built from these alone.
\<close>

theorem only_nonempty_chunks_are_retained:
  "recordedChunksRef (ondataavailable d s) =
     (if 0 < blob_size d then recordedChunksRef s @ [d] else recordedChunksRef s) \<and>
   (stream (fst sw) = Some m \<and>
    mediaRecorderRef (fst (handleStartRecording p sw)) = Some r \<and> rec_state r = RecRecording \<longrightarrow>
      (let sw' = handleStopRecording q
                   (run (map (\<lambda>d. (p, DataAvailable d)) ds) (handleStartRecording p sw));
           retained = filter (\<lambda>d. 0 < blob_size d) (ds @ [final_data q])
       in recordedChunksRef (fst sw') = retained \<and>
          previewBlob (fst sw') = Some (new_Blob retained ''video/webm'')))"
proof (intro conjI impI)
  show "recordedChunksRef (ondataavailable d s) =
     (if 0 < blob_size d then recordedChunksRef s @ [d] else recordedChunksRef s)"
    by (simp add: ondataavailable_def)
next
  assume a: "stream (fst sw) = Some m \<and>
    mediaRecorderRef (fst (handleStartRecording p sw)) = Some r \<and> rec_state r = RecRecording"
  let ?sw0 = "handleStartRecording p sw"
  let ?sw1 = "run (map (\<lambda>d. (p, DataAvailable d)) ds) ?sw0"
  from a have r: "mediaRecorderRef (fst ?sw0) = Some r" "rec_state r = RecRecording"
    by simp_all
  from a have c0: "recordedChunksRef (fst ?sw0) = []"
    by (simp add: handleStartRecording_resets_chunks)
  from deliver_chunks [OF r, of p ds]
  have r1: "mediaRecorderRef (fst ?sw1) = Some r"
    and c1: "recordedChunksRef (fst ?sw1) = filter (\<lambda>d. 0 < blob_size d) ds"
    by (simp_all add: c0)
  show "let sw' = handleStopRecording q ?sw1;
            retained = filter (\<lambda>d. 0 < blob_size d) (ds @ [final_data q])
        in recordedChunksRef (fst sw') = retained \<and>
           previewBlob (fst sw') = Some (new_Blob retained ''video/webm'')"
    using r1 r(2) c1
    by (simp add: handleStopRecording_def onstop_def ondataavailable_def Let_def)
qed

theorem only_nonempty_chunks_are_retained_witness:
  "stream (fst (started sample_platform)) = Some (sample_stream (constraints Environment Photo)) \<and>
   mediaRecorderRef (fst (handleStartRecording sample_platform (started sample_platform))) =
     Some \<lparr>rec_stream = sample_stream (constraints Environment Photo), rec_mimeType = None,
           rec_state = RecRecording\<rparr> \<and>
   previewBlob
     (fst (handleStopRecording sample_platform
        (run (map (\<lambda>d. (sample_platform, DataAvailable d)) [chunk [], chunk [7], chunk [], chunk [8, 9]])
           (handleStartRecording sample_platform (started sample_platform))))) =
     Some \<lparr>blob_bytes = [7, 8, 9], blob_type = ''video/webm''\<rparr>"
proof -
  let ?m = "sample_stream (constraints Environment Photo)"
  let ?r = "\<lparr>rec_stream = ?m, rec_mimeType = None, rec_state = RecRecording\<rparr>"
  have h: "stream (fst (started sample_platform)) = Some ?m"
    by (simp add: handler_defs)
  have h2: "mediaRecorderRef (fst (handleStartRecording sample_platform (started sample_platform))) =
     Some ?r"
    by (simp add: handler_defs observation_defs)
  have h3: "rec_state ?r = RecRecording" by simp
  have fin: "final_data sample_platform = chunk []"
    by (simp add: sample_platform_def chunk_def)
  from only_nonempty_chunks_are_retained
         [of "chunk []" "fst (started sample_platform)" "started sample_platform"
             ?m sample_platform ?r sample_platform
             "[chunk [], chunk [7], chunk [], chunk [8, 9]]"] h h2 h3
  show ?thesis
    by (simp add: Let_def fin chunk_def blob_size_def new_Blob_def del: run.simps map_eq_Cons_conv)
qed

text \<open>
  The fallback is outside the \<open>try\<close>. On a platform without a default recorder the
  constructor without options throws as well, and on a held stream whose tracks are
  stopped \<open>start()\<close> throws: in both cases the vp9 rejection is logged, the exception
  leaves the handler and no recording starts.
\<close>

theorem codec_fallback_can_throw:
  "stream (fst (started sample_platform)) = Some (sample_stream (constraints Environment Photo)) \<and>
   \<not> isTypeSupported no_recorder_platform ''video/webm; codecs=vp9'' \<and>
   \<not> isRecording (fst (handleStartRecording no_recorder_platform (started sample_platform))) \<and>
   mediaRecorderRef (fst (handleStartRecording no_recorder_platform (started sample_platform))) = None \<and>
   trace (snd (handleStartRecording no_recorder_platform (started sample_platform))) =
     [GetUserMedia (constraints Environment Photo),
      ConsoleError ''Error creating MediaRecorder with vp9, falling back:'',
      Uncaught ''NotSupportedError''] \<and>
   stream (fst after_denied_switch) = Some (sample_stream (constraints Environment Photo)) \<and>
   \<not> isTypeSupported sample_platform ''video/webm; codecs=vp9'' \<and>
   \<not> isRecording (fst (handleStartRecording sample_platform after_denied_switch)) \<and>
   drop (length (trace (snd after_denied_switch)))
     (trace (snd (handleStartRecording sample_platform after_denied_switch))) =
     [ConsoleError ''Error creating MediaRecorder with vp9, falling back:'',
      Uncaught ''NotSupportedError'']"
  by (simp add: after_denied_switch_def handler_defs observation_defs)

text \<open>
  C8, as amended. When the platform rejects the vp9 type, and it can construct a recorder
  without options and the held stream is live, that recorder is created and started, the
  recording flag is set, and the only trace of the rejection is one \<open>console.error\<close>: no
  alert, no \<open>onClose\<close>, no exception leaves the handler.
\<close>

theorem codec_fallback_is_silent_when_recorder_starts:
  assumes "stream (fst sw) = Some m"
    and "\<not> isTypeSupported p ''video/webm; codecs=vp9''"
    and "default_recorder_error p = None"
    and "live (snd sw) m"
  shows "mediaRecorderRef (fst (handleStartRecording p sw)) =
           Some \<lparr>rec_stream = m, rec_mimeType = None, rec_state = RecRecording\<rparr> \<and>
         isRecording (fst (handleStartRecording p sw)) \<and>
         trace (snd (handleStartRecording p sw)) =
           trace (snd sw) @
           [ConsoleError ''Error creating MediaRecorder with vp9, falling back:'',
            RecorderStart None]"
  using assms
  by (simp add: handleStartRecording_def start_recorder_def new_MediaRecorder_def Let_def live_def)

theorem codec_fallback_is_silent_when_recorder_starts_witness:
  "stream (fst (started sample_platform)) = Some (sample_stream (constraints Environment Photo)) \<and>
   \<not> isTypeSupported sample_platform ''video/webm; codecs=vp9'' \<and>
   default_recorder_error sample_platform = None \<and>
   live (snd (started sample_platform)) (sample_stream (constraints Environment Photo)) \<and>
   isRecording (fst (handleStartRecording sample_platform (started sample_platform))) \<and>
   trace (snd (handleStartRecording sample_platform (started sample_platform))) =
     [GetUserMedia (constraints Environment Photo),
      ConsoleError ''Error creating MediaRecorder with vp9, falling back:'',
      RecorderStart None]"
proof -
  let ?m = "sample_stream (constraints Environment Photo)"
  have h1: "stream (fst (started sample_platform)) = Some ?m"
    by (simp add: handler_defs)
  have h2: "\<not> isTypeSupported sample_platform ''video/webm; codecs=vp9''"
    by (simp add: sample_platform_def)
  have h3: "default_recorder_error sample_platform = None"
    by (simp add: sample_platform_def)
  have h4: "live (snd (started sample_platform)) ?m"
    by (simp add: handler_defs observation_defs)
  have t: "trace (snd (started sample_platform)) = [GetUserMedia (constraints Environment Photo)]"
    by (simp add: handler_defs)
  show ?thesis
    using codec_fallback_is_silent_when_recorder_starts [OF h1 h2 h3 h4] h1 h2 h3 h4
    by (simp add: t)
qed

section \<open>Snapshot\<close>

text \<open>
  While the video element shows a stream, a snapshot draws on a canvas of that stream's
  frame size and asks for \<open>image/jpeg\<close> at quality 0.95; the artifact, when the encoder
  gives one, has type \<open>image/jpeg\<close>.
\<close>

lemma snapshot_of_shown_stream:
  assumes "videoRef (fst sw) = Some v" and "srcObject v = Some m" and "getContext2d p"
    and "previewBlob (fst sw) = None"
    and "0 < frameWidth m" "frameWidth m \<le> 2147483647"
    and "0 < frameHeight m" "frameHeight m \<le> 2147483647"
  shows "take 2 (drop (length (trace (snd sw))) (trace (snd (handleTakePicture p sw)))) =
           [DrawImage 0 0 (frameWidth m) (frameHeight m), ToBlob ''image/jpeg'' (95 / 100)] \<and>
         previewBlob (fst (handleTakePicture p sw)) =
           map_option (\<lambda>d. \<lparr>blob_bytes = d, blob_type = ''image/jpeg''\<rparr>)
             (encode p \<lparr>width = frameWidth m, height = frameHeight m\<rparr> ''image/jpeg'' (95 / 100))"
  using assms
  by (simp add: handleTakePicture_def toBlob_def videoWidth_def videoHeight_def createCanvas_def
      reflect_dimension_def Let_def split: option.splits)

text \<open>
  C9. After a retake the live view is a new video element, and nothing gives it the held
  stream: the effect runs only when mode or facing change. The session is streaming, in
  photo mode, with a live 1280 by 720 stream held, and the next snapshot draws on a canvas
  of 0 by 0 and produces no artifact.
\<close>

theorem snapshot_after_retake_has_no_frame:
  "let sw = run [(sample_platform, Click ShutterButton), (sample_platform, Click RetakeButton)]
              (started sample_platform);
       sw' = step sample_platform (Click ShutterButton) sw
   in session_state sw = Streaming \<and> mode (fst sw) = Photo \<and>
      stream (fst sw) = Some (sample_stream (constraints Environment Photo)) \<and>
      frameWidth (sample_stream (constraints Environment Photo)) = 1280 \<and>
      frameHeight (sample_stream (constraints Environment Photo)) = 720 \<and>
      live_streams (snd sw) = [sample_stream (constraints Environment Photo)] \<and>
      videoRef (fst sw) = Some \<lparr>srcObject = None\<rparr> \<and>
      drop (length (trace (snd sw))) (trace (snd sw')) =
        [DrawImage 0 0 0 0, ToBlob ''image/jpeg'' (95 / 100)] \<and>
      previewBlob (fst sw') = None \<and> preview (fst sw') = None"
  by (simp add: handler_defs observation_defs)

end
